theory Spec2Isabelle
  imports Main
begin

section \<open>Embedding cluster analytics: the visualisation scripts\<close>

text \<open>
  The development embeds \<^verbatim>\<open>visualize_clusters.py\<close> and the clustering entry point of
  \<^verbatim>\<open>visualize_with_clustering.py\<close>. Python exceptions are values of \<open>py_error\<close>; a
  function that may raise returns \<open>py_error + 'a\<close> with \<open>Inl\<close> for the exception.
  Embedding coordinates are floating-point numbers in the scripts; their type is the
  parameter \<open>'c\<close>, since no function of the scripts computes with them.
\<close>

subsection \<open>Exceptions and HTTP responses\<close>

datatype py_error =
    ConnectionError
  | JSONDecodeError
  | KeyError string
  | ValueError string
  | IndexError
  | TypeError

text \<open>
  The outcome of \<^verbatim>\<open>requests.post\<close> / \<^verbatim>\<open>requests.get\<close>: the call raises when the service
  cannot be reached, otherwise it returns a response with a status code, a text and
  a body; \<^verbatim>\<open>response.json()\<close> raises when the body is not JSON (\<open>None\<close> here).
\<close>

datatype 'b http_result =
    Unreachable
  | Response int string "'b option"

subsection \<open>Embedding records\<close>

text \<open>
  One \<^verbatim>\<open>_source\<close> object of the search response. A field read with
  \<^verbatim>\<open>source["key"]\<close> raises \<^verbatim>\<open>KeyError\<close> when the key is absent, so every such field is
  optional here. \<^verbatim>\<open>source.get("clusterId")\<close> is \<^verbatim>\<open>None\<close> for an absent key and for a JSON
  null alike. \<^verbatim>\<open>source.get("contentPreview", "")[:50]\<close> tells the two apart: an absent
  key gives the empty string, a null gives \<^verbatim>\<open>None\<close>, whose slice raises \<^verbatim>\<open>TypeError\<close>.
\<close>

datatype 'a json_field = Absent | Null | Present 'a

record 'c es_source =
  src_id :: "string option"
  src_documentType :: "string option"
  src_embedding :: "'c list option"
  src_clusterId :: "string option"
  src_referenceId :: "string option"
  src_contentPreview :: "string json_field"

text \<open>
  A hit without a \<^verbatim>\<open>_source\<close> key is \<open>None\<close>; a body without \<^verbatim>\<open>["hits"]["hits"]\<close> is
  \<open>None\<close>.
\<close>

type_synonym 'c es_body = "'c es_source option list option"

text \<open>The dictionary built for each hit by \<^verbatim>\<open>fetch_vectors_from_elasticsearch\<close>.\<close>

record 'c vector =
  v_id :: string
  v_type :: string
  v_embedding :: "'c list"
  v_clusterId :: "string option"
  v_referenceId :: string
  v_preview :: string

definition require :: "string \<Rightarrow> 'a option \<Rightarrow> py_error + 'a" where
  "require key field = (case field of None \<Rightarrow> Inl (KeyError key) | Some x \<Rightarrow> Inr x)"

definition vector_of_hit :: "'c es_source option \<Rightarrow> py_error + 'c vector" where
  "vector_of_hit hit =
     (case require ''_source'' hit of Inl e \<Rightarrow> Inl e | Inr source \<Rightarrow>
      case require ''id'' (src_id source) of Inl e \<Rightarrow> Inl e | Inr i \<Rightarrow>
      case require ''documentType'' (src_documentType source) of Inl e \<Rightarrow> Inl e | Inr t \<Rightarrow>
      case require ''embedding'' (src_embedding source) of Inl e \<Rightarrow> Inl e | Inr emb \<Rightarrow>
      case require ''referenceId'' (src_referenceId source) of Inl e \<Rightarrow> Inl e | Inr r \<Rightarrow>
      case (case src_contentPreview source of
              Absent \<Rightarrow> Inr (take 50 [])
            | Null \<Rightarrow> Inl TypeError
            | Present p \<Rightarrow> Inr (take 50 p)) of Inl e \<Rightarrow> Inl e | Inr preview \<Rightarrow>
      Inr \<lparr> v_id = i, v_type = t, v_embedding = emb,
            v_clusterId = src_clusterId source, v_referenceId = r,
            v_preview = preview \<rparr>)"

text \<open>The loop over the hits: the first hit that raises ends the function.\<close>

fun collect_vectors :: "'c es_source option list \<Rightarrow> 'c vector list \<Rightarrow> py_error + 'c vector list" where
  "collect_vectors [] vectors = Inr vectors"
| "collect_vectors (hit # hits) vectors =
     (case vector_of_hit hit of
        Inl e \<Rightarrow> Inl e
      | Inr v \<Rightarrow> collect_vectors hits (vectors @ [v]))"

fun fetch_vectors_from_elasticsearch :: "'c es_body http_result \<Rightarrow> py_error + 'c vector list" where
  "fetch_vectors_from_elasticsearch Unreachable = Inl ConnectionError"
| "fetch_vectors_from_elasticsearch (Response status_code body_text body) =
     (if status_code \<noteq> 200 then Inr []
      else case body of
             None \<Rightarrow> Inl JSONDecodeError
           | Some None \<Rightarrow> Inl (KeyError ''hits'')
           | Some (Some hits) \<Rightarrow> collect_vectors hits [])"

subsection \<open>Message metadata\<close>

record api_message =
  msg_id :: "string option"
  msg_messageType :: "string option"
  msg_senderId :: "string option"
  msg_receiverId :: "string option"
  msg_status :: "string option"
  msg_templateId :: "string option"
  msg_clusterId :: "string option"

record metadata =
  messageType :: string
  senderId :: string
  receiverId :: string
  status :: string
  templateId :: "string option"
  clusterId :: "string option"

type_synonym messages_map = "string \<rightharpoonup> metadata"

text \<open>
  \<^verbatim>\<open>message_map[msg["id"]] = {...}\<close>: Python evaluates the dictionary on the right
  before the subscript \<^verbatim>\<open>msg["id"]\<close> of the target, so a missing \<^verbatim>\<open>id\<close> is reported last.
\<close>

definition metadata_of_message :: "api_message \<Rightarrow> py_error + (string \<times> metadata)" where
  "metadata_of_message msg =
     (case require ''messageType'' (msg_messageType msg) of Inl e \<Rightarrow> Inl e | Inr t \<Rightarrow>
      case require ''senderId'' (msg_senderId msg) of Inl e \<Rightarrow> Inl e | Inr s \<Rightarrow>
      case require ''receiverId'' (msg_receiverId msg) of Inl e \<Rightarrow> Inl e | Inr r \<Rightarrow>
      case require ''status'' (msg_status msg) of Inl e \<Rightarrow> Inl e | Inr st \<Rightarrow>
      case require ''id'' (msg_id msg) of Inl e \<Rightarrow> Inl e | Inr i \<Rightarrow>
      Inr (i, \<lparr> messageType = t, senderId = s, receiverId = r, status = st,
                templateId = msg_templateId msg, clusterId = msg_clusterId msg \<rparr>))"

fun collect_messages :: "api_message list \<Rightarrow> messages_map \<Rightarrow> py_error + messages_map" where
  "collect_messages [] message_map = Inr message_map"
| "collect_messages (msg # messages) message_map =
     (case metadata_of_message msg of
        Inl e \<Rightarrow> Inl e
      | Inr (i, m) \<Rightarrow> collect_messages messages (message_map(i \<mapsto> m)))"

fun fetch_messages_from_api :: "api_message list http_result \<Rightarrow> py_error + messages_map" where
  "fetch_messages_from_api Unreachable = Inl ConnectionError"
| "fetch_messages_from_api (Response status_code body_text body) =
     (if status_code \<noteq> 200 then Inr Map.empty
      else case body of
             None \<Rightarrow> Inl JSONDecodeError
           | Some messages \<Rightarrow> collect_messages messages Map.empty)"

text \<open>
  \<^verbatim>\<open>messages_map.get(key, {})\<close> followed by \<^verbatim>\<open>msg.get(field, default)\<close>: the default is
  returned exactly when the message is unknown, since every stored entry has the field.
\<close>

definition get_field :: "metadata option \<Rightarrow> (metadata \<Rightarrow> string) \<Rightarrow> string \<Rightarrow> string" where
  "get_field msg field dflt = (case msg of None \<Rightarrow> dflt | Some m \<Rightarrow> field m)"

subsection \<open>Reducers and the clustering entry point\<close>

text \<open>
  The scikit-learn estimators are objects built from keyword arguments; the arguments
  are kept as data, in the order \<open>TSNE n_components random_state perplexity n_iter\<close>,
  \<open>PCA n_components random_state\<close> and \<open>KMeans n_clusters random_state n_init\<close>.
  Fitting (\<^verbatim>\<open>fit_transform\<close>, \<^verbatim>\<open>fit_predict\<close>) is library code: it is a parameter of
  the functions that call it, and it may raise.
\<close>

datatype reducer =
    TSNE int int int "int option"
  | PCA int int

datatype kmeans = KMeans int int int

text \<open>
  \<^verbatim>\<open>perform_clustering(embeddings, n_clusters=None)\<close>: the estimator it builds, then the
  call of \<^verbatim>\<open>fit_predict\<close>, whose labels and centres it returns unchanged.
\<close>

definition clustering_estimator :: "'c list list \<Rightarrow> int option \<Rightarrow> kmeans" where
  "clustering_estimator embeddings n_clusters =
     (let n_clusters' =
            (case n_clusters of
               None \<Rightarrow> (let n_samples = int (length embeddings)
                        in min 5 (max 2 (n_samples div 10)))
             | Some k \<Rightarrow> k)
      in KMeans n_clusters' 42 10)"

definition perform_clustering ::
  "(kmeans \<Rightarrow> 'c list list \<Rightarrow> py_error + (int list \<times> 'c list list)) \<Rightarrow>
   'c list list \<Rightarrow> int option \<Rightarrow> py_error + (int list \<times> 'c list list)" where
  "perform_clustering fit_predict embeddings n_clusters =
     fit_predict (clustering_estimator embeddings n_clusters) embeddings"


text \<open>The policy in the words of the specification: \<open>clamp(n // 10, 2, 5)\<close>.\<close>

definition clamp :: "int \<Rightarrow> int \<Rightarrow> int \<Rightarrow> int" where
  "clamp x lo hi = (if x < lo then lo else if hi < x then hi else x)"

text \<open>
  \<^verbatim>\<open>reduce_dimensions(embeddings, method, n_components)\<close>: the reducer chosen by the
  \<^verbatim>\<open>if/elif/else\<close>, then \<^verbatim>\<open>reducer.fit_transform(embeddings)\<close>.
\<close>

definition choose_reducer :: "'c list list \<Rightarrow> string \<Rightarrow> int \<Rightarrow> py_error + reducer" where
  "choose_reducer embeddings method n_components =
     (if method = ''tsne'' then
        Inr (TSNE n_components 42 (min 30 (int (length embeddings) - 1)) (Some 1000))
      else if method = ''pca'' then
        Inr (PCA n_components 42)
      else Inl (ValueError (''Unknown method: '' @ method)))"

definition reduce_dimensions ::
  "(reducer \<Rightarrow> 'c list list \<Rightarrow> py_error + 'c list list) \<Rightarrow>
   'c list list \<Rightarrow> string \<Rightarrow> int \<Rightarrow> py_error + 'c list list" where
  "reduce_dimensions fit_transform embeddings method n_components =
     (case choose_reducer embeddings method n_components of
        Inl e \<Rightarrow> Inl e
      | Inr reducer \<Rightarrow> fit_transform reducer embeddings)"

text \<open>
  The reducer of \<^verbatim>\<open>create_cluster_visualization\<close> in \<^verbatim>\<open>visualize_with_clustering.py\<close>:
  every method other than \<^verbatim>\<open>"tsne"\<close> is PCA there, and no iteration count is passed.
\<close>

definition cluster_visualization_reducer :: "'c list list \<Rightarrow> string \<Rightarrow> reducer" where
  "cluster_visualization_reducer embeddings method =
     (if method = ''tsne'' then TSNE 2 42 (min 30 (int (length embeddings) - 1)) None
      else PCA 2 42)"

fun perplexity :: "reducer \<Rightarrow> int option" where
  "perplexity (TSNE n_components random_state p n_iter) = Some p"
| "perplexity (PCA n_components random_state) = None"

subsection \<open>Figures\<close>

text \<open>
  A figure keeps what the scripts compute from their input: the coordinates, the
  per-point marker attributes, texts, labels, counts, names, titles and subplot cells.
  Styling that is the same constant in every call (line widths, colour scale, paper
  size, template) is left out. A marker size is one number or one number per point.
\<close>

datatype marker_size = Scalar int | Array "int list"

record marker =
  m_size :: marker_size
  m_color :: "int list"
  m_symbol :: "string list option"

datatype 'c trace =
    Scatter "'c list" "'c list" marker "string list option" "string list option" string
  | Scatter3d "'c list" "'c list" "'c list" marker "string list" "string list" string
  | Pie "string list" "nat list" string
  | Bar "string list" "nat list" string

record 'c figure =
  traces :: "('c trace \<times> (nat \<times> nat) option) list"
  subplot_titles :: "string list"
  title :: string
  axis_titles :: "string list"

subsection \<open>Strings\<close>

text \<open>\<^verbatim>\<open>str.upper\<close> on the ASCII letters, which is all the method names contain.\<close>

definition upper_char :: "char \<Rightarrow> char" where
  "upper_char c =
     (let n = (of_char c :: nat) in if 97 \<le> n \<and> n \<le> 122 then char_of (n - 32) else c)"

definition upper :: "string \<Rightarrow> string" where
  "upper s = map upper_char s"

text \<open>
  \<^verbatim>\<open>s.replace(old, new)\<close>: every non-overlapping occurrence from the left; an empty
  \<open>old\<close> matches before every character and at the end.
\<close>

fun replace_nonempty :: "string \<Rightarrow> string \<Rightarrow> string \<Rightarrow> string" where
  "replace_nonempty [] old new = []"
| "replace_nonempty (c # cs) old new =
     (if old \<noteq> [] \<and> take (length old) (c # cs) = old
      then new @ replace_nonempty (drop (length old) (c # cs)) old new
      else c # replace_nonempty cs old new)"

definition str_replace :: "string \<Rightarrow> string \<Rightarrow> string \<Rightarrow> string" where
  "str_replace s old new =
     (if old = [] then new @ concat (map (\<lambda>c. c # new) s) else replace_nonempty s old new)"

text \<open>The line break and the eight spaces that open every line of the hover texts.\<close>

definition line_start :: string where
  "line_start = CHR 0x0A # replicate 8 (CHR '' '')"

definition show_optional :: "string option \<Rightarrow> string" where
  "show_optional v = (case v of None \<Rightarrow> ''None'' | Some s \<Rightarrow> s)"

text \<open>
  \<^verbatim>\<open>msg.get("templateId", "None")[:12] if msg.get("templateId") else "None"\<close>
\<close>

definition template_text :: "metadata option \<Rightarrow> string" where
  "template_text msg =
     (case msg of
        None \<Rightarrow> ''None''
      | Some m \<Rightarrow> (case templateId m of
                    None \<Rightarrow> ''None''
                  | Some t \<Rightarrow> if t \<noteq> [] then take 12 t else ''None''))"

definition hover_text_2d :: "'c vector \<Rightarrow> metadata option \<Rightarrow> string \<Rightarrow> string" where
  "hover_text_2d vec msg msg_type =
     line_start @ ''<b>ID:</b> '' @ take 12 (v_referenceId vec) @ ''...<br>'' @
     line_start @ ''<b>Type:</b> '' @ msg_type @ ''<br>'' @
     line_start @ ''<b>Sender:</b> '' @ get_field msg senderId ''N/A'' @ ''<br>'' @
     line_start @ ''<b>Receiver:</b> '' @ get_field msg receiverId ''N/A'' @ ''<br>'' @
     line_start @ ''<b>Status:</b> '' @ get_field msg status ''N/A'' @ ''<br>'' @
     line_start @ ''<b>Cluster:</b> '' @ show_optional (v_clusterId vec) @ ''<br>'' @
     line_start @ ''<b>Template:</b> '' @ template_text msg @
     line_start"

definition hover_text_3d :: "'c vector \<Rightarrow> metadata option \<Rightarrow> string \<Rightarrow> string" where
  "hover_text_3d vec msg msg_type =
     line_start @ ''ID: '' @ take 12 (v_referenceId vec) @ ''...<br>'' @
     line_start @ ''Type: '' @ msg_type @ ''<br>'' @
     line_start @ ''Sender: '' @ get_field msg senderId ''N/A'' @ ''<br>'' @
     line_start @ ''Receiver: '' @ get_field msg receiverId ''N/A'' @ ''<br>'' @
     line_start @ ''Status: '' @ get_field msg status ''N/A'' @ ''<br>'' @
     line_start @ ''Cluster: '' @ show_optional (v_clusterId vec) @ ''<br>'' @
     line_start @ ''Template: '' @ template_text msg @
     line_start"

subsection \<open>Scatter views\<close>

text \<open>\<^verbatim>\<open>reduced[:, j]\<close> on the rows returned by the reducer.\<close>

definition column :: "nat \<Rightarrow> 'c list list \<Rightarrow> py_error + 'c list" where
  "column j rows =
     (if list_all (\<lambda>r. j < length r) rows then Inr (map (\<lambda>r. r ! j) rows) else Inl IndexError)"

text \<open>
  The loop of \<^verbatim>\<open>create_2d_visualization\<close> over \<^verbatim>\<open>vectors_data\<close>; the state is the four
  lists \<^verbatim>\<open>colors\<close>, \<^verbatim>\<open>hover_texts\<close>, \<^verbatim>\<open>symbols\<close>, \<^verbatim>\<open>sizes\<close>.
\<close>

fun points_2d ::
  "'c vector list \<Rightarrow> messages_map \<Rightarrow>
   string list \<times> string list \<times> string list \<times> int list \<Rightarrow>
   string list \<times> string list \<times> string list \<times> int list" where
  "points_2d [] messages_map acc = acc"
| "points_2d (vec # rest) messages_map (colors, hover_texts, symbols, sizes) =
     (let msg = messages_map (v_referenceId vec);
          msg_type = get_field msg messageType ''UNKNOWN'';
          colors' = colors @ [msg_type];
          symbols' = symbols @ [if v_type vec = ''TEMPLATE'' then ''star'' else ''circle''];
          sizes' = sizes @ [if v_type vec = ''TEMPLATE'' then 20 else 10];
          hover_texts' = hover_texts @ [hover_text_2d vec msg msg_type]
      in points_2d rest messages_map (colors', hover_texts', symbols', sizes'))"

text \<open>
  The marker colours are \<^verbatim>\<open>hash(c) % 360\<close> for the message type \<open>c\<close>, a string. Python
  salts the hash of a string with a value drawn when the interpreter starts, so the
  function \<open>hash\<close> belongs to the process: it is a parameter of the views.
\<close>

definition create_2d_visualization ::
  "(reducer \<Rightarrow> 'c list list \<Rightarrow> py_error + 'c list list) \<Rightarrow> (string \<Rightarrow> int) \<Rightarrow>
   'c vector list \<Rightarrow> messages_map \<Rightarrow> string \<Rightarrow> py_error + 'c figure" where
  "create_2d_visualization fit_transform hash vectors_data messages_map method =
     (let embeddings = map v_embedding vectors_data in
      case reduce_dimensions fit_transform embeddings method 2 of Inl e \<Rightarrow> Inl e | Inr reduced \<Rightarrow>
      case column 0 reduced of Inl e \<Rightarrow> Inl e | Inr x \<Rightarrow>
      case column 1 reduced of Inl e \<Rightarrow> Inl e | Inr y \<Rightarrow>
      case points_2d vectors_data messages_map ([], [], [], []) of
        (colors, hover_texts, symbols, sizes) \<Rightarrow>
      Inr \<lparr> traces =
              [(Scatter x y
                  \<lparr> m_size = Array sizes,
                    m_color = map (\<lambda>c. hash c mod 360) colors,
                    m_symbol = Some symbols \<rparr>
                  (Some colors) (Some hover_texts) ''Messages'', None)],
            subplot_titles = [],
            title = ''SWIFT Message Clusters Visualization ('' @ upper method @ '')'',
            axis_titles = [upper method @ '' Component 1'', upper method @ '' Component 2''] \<rparr>)"

fun points_3d ::
  "'c vector list \<Rightarrow> messages_map \<Rightarrow>
   string list \<times> string list \<times> string list \<times> int list \<Rightarrow>
   string list \<times> string list \<times> string list \<times> int list" where
  "points_3d [] messages_map acc = acc"
| "points_3d (vec # rest) messages_map (colors, hover_texts, symbols, sizes) =
     (let msg = messages_map (v_referenceId vec);
          msg_type = get_field msg messageType ''UNKNOWN'';
          colors' = colors @ [msg_type];
          sizes' = sizes @ [if v_type vec = ''TEMPLATE'' then 15 else 8];
          symbols' = symbols @ [if v_type vec = ''TEMPLATE'' then ''diamond'' else ''circle''];
          hover_texts' = hover_texts @ [hover_text_3d vec msg msg_type]
      in points_3d rest messages_map (colors', hover_texts', symbols', sizes'))"

definition create_3d_visualization ::
  "(reducer \<Rightarrow> 'c list list \<Rightarrow> py_error + 'c list list) \<Rightarrow> (string \<Rightarrow> int) \<Rightarrow>
   'c vector list \<Rightarrow> messages_map \<Rightarrow> string \<Rightarrow> py_error + 'c figure" where
  "create_3d_visualization fit_transform hash vectors_data messages_map method =
     (let embeddings = map v_embedding vectors_data in
      case reduce_dimensions fit_transform embeddings method 3 of Inl e \<Rightarrow> Inl e | Inr reduced \<Rightarrow>
      case column 0 reduced of Inl e \<Rightarrow> Inl e | Inr x \<Rightarrow>
      case column 1 reduced of Inl e \<Rightarrow> Inl e | Inr y \<Rightarrow>
      case column 2 reduced of Inl e \<Rightarrow> Inl e | Inr z \<Rightarrow>
      case points_3d vectors_data messages_map ([], [], [], []) of
        (colors, hover_texts, symbols, sizes) \<Rightarrow>
      Inr \<lparr> traces =
              [(Scatter3d x y z
                  \<lparr> m_size = Array sizes,
                    m_color = map (\<lambda>c. hash c mod 360) colors,
                    m_symbol = Some symbols \<rparr>
                  colors hover_texts ''Messages'', None)],
            subplot_titles = [],
            title = ''SWIFT Message Clusters 3D Visualization ('' @ upper method @ '')'',
            axis_titles = [upper method @ '' Component 1'', upper method @ '' Component 2'',
                           upper method @ '' Component 3''] \<rparr>)"

subsection \<open>Comparison view\<close>

fun comparison_colors :: "(string \<Rightarrow> int) \<Rightarrow> 'c vector list \<Rightarrow> messages_map \<Rightarrow> int list \<Rightarrow> int list" where
  "comparison_colors hash [] messages_map colors = colors"
| "comparison_colors hash (vec # rest) messages_map colors =
     (let msg = messages_map (v_referenceId vec);
          msg_type = get_field msg messageType ''UNKNOWN''
      in comparison_colors hash rest messages_map (colors @ [hash msg_type mod 360]))"

definition create_cluster_comparison ::
  "(reducer \<Rightarrow> 'c list list \<Rightarrow> py_error + 'c list list) \<Rightarrow> (string \<Rightarrow> int) \<Rightarrow>
   'c vector list \<Rightarrow> messages_map \<Rightarrow> py_error + 'c figure" where
  "create_cluster_comparison fit_transform hash vectors_data messages_map =
     (let embeddings = map v_embedding vectors_data in
      case reduce_dimensions fit_transform embeddings ''tsne'' 2 of Inl e \<Rightarrow> Inl e | Inr tsne_2d \<Rightarrow>
      case reduce_dimensions fit_transform embeddings ''pca'' 2 of Inl e \<Rightarrow> Inl e | Inr pca_2d \<Rightarrow>
      let colors = comparison_colors hash vectors_data messages_map [] in
      case column 0 tsne_2d of Inl e \<Rightarrow> Inl e | Inr tx \<Rightarrow>
      case column 1 tsne_2d of Inl e \<Rightarrow> Inl e | Inr ty \<Rightarrow>
      case column 0 pca_2d of Inl e \<Rightarrow> Inl e | Inr px \<Rightarrow>
      case column 1 pca_2d of Inl e \<Rightarrow> Inl e | Inr py \<Rightarrow>
      Inr \<lparr> traces =
              [(Scatter tx ty \<lparr> m_size = Scalar 10, m_color = colors, m_symbol = None \<rparr>
                  None None ''t-SNE'', Some (1, 1)),
               (Scatter px py \<lparr> m_size = Scalar 10, m_color = colors, m_symbol = None \<rparr>
                  None None ''PCA'', Some (1, 2))],
            subplot_titles = [''t-SNE Projection'', ''PCA Projection''],
            title = ''Cluster Comparison: t-SNE vs PCA'',
            axis_titles = [] \<rparr>)"

subsection \<open>Statistics view\<close>

text \<open>
  A counting dictionary is a list of pairs in insertion order, as \<^verbatim>\<open>keys()\<close> and
  \<^verbatim>\<open>values()\<close> list it. \<^verbatim>\<open>d[k] = d.get(k, 0) + 1\<close> adds one to the entry of \<open>k\<close> where it
  stands, or appends \<open>(k, 1)\<close>.
\<close>

type_synonym counts = "(string \<times> nat) list"

fun increment :: "string \<Rightarrow> counts \<Rightarrow> counts" where
  "increment k [] = [(k, 1)]"
| "increment k ((k', n) # d) =
     (if k' = k then (k', n + 1) # d else (k', n) # increment k d)"

text \<open>
  The first loop of \<^verbatim>\<open>create_statistics_view\<close>; the state is \<^verbatim>\<open>type_counts\<close>,
  \<^verbatim>\<open>cluster_counts\<close>, \<^verbatim>\<open>sender_counts\<close>. A cluster identifier is a string, so
  \<^verbatim>\<open>str(cluster_id)\<close> is the identifier itself.
\<close>

fun count_loop ::
  "'c vector list \<Rightarrow> messages_map \<Rightarrow> counts \<times> counts \<times> counts \<Rightarrow> counts \<times> counts \<times> counts" where
  "count_loop [] messages_map acc = acc"
| "count_loop (vec # rest) messages_map (type_counts, cluster_counts, sender_counts) =
     (let msg = messages_map (v_referenceId vec);
          msg_type = get_field msg messageType ''UNKNOWN'';
          type_counts' = increment msg_type type_counts;
          cluster_counts' = (case v_clusterId vec of
                               None \<Rightarrow> cluster_counts
                             | Some cluster_id \<Rightarrow> increment cluster_id cluster_counts);
          sender = get_field msg senderId ''UNKNOWN'';
          sender_counts' = increment sender sender_counts
      in count_loop rest messages_map (type_counts', cluster_counts', sender_counts'))"

text \<open>The second loop: \<^verbatim>\<open>doc_types\<close>.\<close>

fun doc_type_loop :: "'c vector list \<Rightarrow> counts \<Rightarrow> counts" where
  "doc_type_loop [] doc_types = doc_types"
| "doc_type_loop (vec # rest) doc_types = doc_type_loop rest (increment (v_type vec) doc_types)"

text \<open>
  \<^verbatim>\<open>sorted(sender_counts.items(), key=lambda x: x[1], reverse=True)[:10]\<close>: a stable sort
  by falling count.
\<close>

definition top_senders :: "counts \<Rightarrow> counts" where
  "top_senders sender_counts = take 10 (sort_key (\<lambda>x. - int (snd x)) sender_counts)"

definition type_counts_of :: "'c vector list \<Rightarrow> messages_map \<Rightarrow> counts" where
  "type_counts_of vectors_data messages_map =
     fst (count_loop vectors_data messages_map ([], [], []))"

definition cluster_counts_of :: "'c vector list \<Rightarrow> messages_map \<Rightarrow> counts" where
  "cluster_counts_of vectors_data messages_map =
     fst (snd (count_loop vectors_data messages_map ([], [], [])))"

definition sender_counts_of :: "'c vector list \<Rightarrow> messages_map \<Rightarrow> counts" where
  "sender_counts_of vectors_data messages_map =
     snd (snd (count_loop vectors_data messages_map ([], [], [])))"

definition create_statistics_view :: "'c vector list \<Rightarrow> messages_map \<Rightarrow> 'c figure" where
  "create_statistics_view vectors_data messages_map =
     (let type_counts = type_counts_of vectors_data messages_map;
          cluster_counts = cluster_counts_of vectors_data messages_map;
          sender_counts = sender_counts_of vectors_data messages_map;
          top = top_senders sender_counts;
          doc_types = doc_type_loop vectors_data []
      in \<lparr> traces =
              [(Pie (map fst type_counts) (map snd type_counts) ''Message Types'', Some (1, 1)),
               (Bar (map fst cluster_counts) (map snd cluster_counts) ''Clusters'', Some (1, 2)),
               (Bar (map fst top) (map snd top) ''Top Senders'', Some (2, 1)),
               (Pie (map fst doc_types) (map snd doc_types) ''Document Types'', Some (2, 2))],
            subplot_titles = [''Messages by Type'', ''Messages by Cluster'',
                              ''Messages by Sender'', ''Document Types''],
            title = ''SWIFT Message Statistics'',
            axis_titles = [] \<rparr>)"

subsection \<open>The run\<close>

record args =
  arg_method :: string
  arg_dimensions :: string
  arg_view :: string
  arg_output :: string

text \<open>
  \<^verbatim>\<open>fig.write_html(output_file)\<close> is called without a \<^verbatim>\<open>div_id\<close>: plotly then writes a
  fresh random identifier into the file. The identifier of the \<open>i\<close>-th file that a
  process writes is \<open>div_id i\<close>; like the string hash it belongs to the process and is a
  parameter of the run. A written file is its name, that identifier and the figure.
\<close>

record 'c html_file =
  f_name :: string
  f_div_id :: string
  f_figure :: "'c figure"

text \<open>
  What a run leaves behind: the files written, in order, and the exception that ended
  it, if any.
\<close>

record 'c run =
  files :: "'c html_file list"
  raised :: "py_error option"

text \<open>
  The three \<^verbatim>\<open>if args.view == ...\<close> blocks of \<^verbatim>\<open>main\<close>; \<open>written\<close> is the number of
  files the process has written before the block.
\<close>

definition scatter_step ::
  "(reducer \<Rightarrow> 'c list list \<Rightarrow> py_error + 'c list list) \<Rightarrow> (string \<Rightarrow> int) \<Rightarrow>
   (nat \<Rightarrow> string) \<Rightarrow> nat \<Rightarrow> args \<Rightarrow>
   'c vector list \<Rightarrow> messages_map \<Rightarrow> py_error + 'c html_file list" where
  "scatter_step fit_transform hash div_id written a vectors_data messages_map =
     (if arg_view a = ''scatter'' \<or> arg_view a = ''all'' then
        case (if arg_dimensions a = ''2d''
              then create_2d_visualization fit_transform hash vectors_data messages_map (arg_method a)
              else create_3d_visualization fit_transform hash vectors_data messages_map (arg_method a)) of
          Inl e \<Rightarrow> Inl e
        | Inr fig \<Rightarrow>
            Inr [\<lparr> f_name = str_replace (arg_output a) ''.html''
                             (''_'' @ arg_method a @ ''_'' @ arg_dimensions a @ ''.html''),
                   f_div_id = div_id written, f_figure = fig \<rparr>]
      else Inr [])"

definition comparison_step ::
  "(reducer \<Rightarrow> 'c list list \<Rightarrow> py_error + 'c list list) \<Rightarrow> (string \<Rightarrow> int) \<Rightarrow>
   (nat \<Rightarrow> string) \<Rightarrow> nat \<Rightarrow> args \<Rightarrow>
   'c vector list \<Rightarrow> messages_map \<Rightarrow> py_error + 'c html_file list" where
  "comparison_step fit_transform hash div_id written a vectors_data messages_map =
     (if arg_view a = ''comparison'' \<or> arg_view a = ''all'' then
        case create_cluster_comparison fit_transform hash vectors_data messages_map of
          Inl e \<Rightarrow> Inl e
        | Inr fig \<Rightarrow>
            Inr [\<lparr> f_name = str_replace (arg_output a) ''.html'' ''_comparison.html'',
                   f_div_id = div_id written, f_figure = fig \<rparr>]
      else Inr [])"

definition stats_step ::
  "(nat \<Rightarrow> string) \<Rightarrow> nat \<Rightarrow> args \<Rightarrow> 'c vector list \<Rightarrow> messages_map \<Rightarrow> 'c html_file list" where
  "stats_step div_id written a vectors_data messages_map =
     (if arg_view a = ''stats'' \<or> arg_view a = ''all'' then
        [\<lparr> f_name = str_replace (arg_output a) ''.html'' ''_stats.html'',
            f_div_id = div_id written,
            f_figure = create_statistics_view vectors_data messages_map \<rparr>]
      else [])"

text \<open>The part of \<^verbatim>\<open>main\<close> after both fetches.\<close>

definition create_visualizations ::
  "(reducer \<Rightarrow> 'c list list \<Rightarrow> py_error + 'c list list) \<Rightarrow> (string \<Rightarrow> int) \<Rightarrow>
   (nat \<Rightarrow> string) \<Rightarrow> args \<Rightarrow> 'c vector list \<Rightarrow> messages_map \<Rightarrow> 'c run" where
  "create_visualizations fit_transform hash div_id a vectors_data messages_map =
     (case scatter_step fit_transform hash div_id 0 a vectors_data messages_map of
        Inl e \<Rightarrow> \<lparr> files = [], raised = Some e \<rparr>
      | Inr scatter_files \<Rightarrow>
     (case comparison_step fit_transform hash div_id (length scatter_files) a
             vectors_data messages_map of
        Inl e \<Rightarrow> \<lparr> files = scatter_files, raised = Some e \<rparr>
      | Inr comparison_files \<Rightarrow>
          \<lparr> files = scatter_files @ comparison_files @
                    stats_step div_id (length scatter_files + length comparison_files) a
                      vectors_data messages_map,
            raised = None \<rparr>))"

definition main ::
  "(reducer \<Rightarrow> 'c list list \<Rightarrow> py_error + 'c list list) \<Rightarrow> (string \<Rightarrow> int) \<Rightarrow>
   (nat \<Rightarrow> string) \<Rightarrow> args \<Rightarrow>
   'c es_body http_result \<Rightarrow> api_message list http_result \<Rightarrow> 'c run" where
  "main fit_transform hash div_id a es api =
     (case fetch_vectors_from_elasticsearch es of
        Inl e \<Rightarrow> \<lparr> files = [], raised = Some e \<rparr>
      | Inr vectors_data \<Rightarrow>
          if vectors_data = [] then \<lparr> files = [], raised = None \<rparr>
          else (case fetch_messages_from_api api of
                  Inl e \<Rightarrow> \<lparr> files = [], raised = Some e \<rparr>
                | Inr messages_map \<Rightarrow>
                    create_visualizations fit_transform hash div_id a vectors_data messages_map))"

section \<open>Definitions used by the statements\<close>

text \<open>
  A figure with its hashed marker colours removed, and a written file with these colours
  and its random identifier removed: what is left of a view when the values
  \<^verbatim>\<open>hash(c) % 360\<close> and the identifier drawn by plotly are ignored.
\<close>

fun erase_trace_colors :: "'c trace \<Rightarrow> 'c trace" where
  "erase_trace_colors (Scatter x y m t h n) = Scatter x y (m\<lparr>m_color := []\<rparr>) t h n"
| "erase_trace_colors (Scatter3d x y z m t h n) = Scatter3d x y z (m\<lparr>m_color := []\<rparr>) t h n"
| "erase_trace_colors (Pie l v n) = Pie l v n"
| "erase_trace_colors (Bar l v n) = Bar l v n"

definition erase_colors :: "'c figure \<Rightarrow> 'c figure" where
  "erase_colors fig =
     fig\<lparr>traces := map (\<lambda>(t, cell). (erase_trace_colors t, cell)) (traces fig)\<rparr>"

definition erase_file :: "'c html_file \<Rightarrow> 'c html_file" where
  "erase_file f = f\<lparr>f_div_id := [], f_figure := erase_colors (f_figure f)\<rparr>"

definition erase_run :: "'c run \<Rightarrow> 'c run" where
  "erase_run r = r\<lparr>files := map erase_file (files r)\<rparr>"

subsection \<open>Example inputs\<close>

definition example_vector :: "string \<Rightarrow> string option \<Rightarrow> int vector" where
  "example_vector r c =
     \<lparr> v_id = ''e-'' @ r, v_type = ''MESSAGE'', v_embedding = [1, 2, 3],
       v_clusterId = c, v_referenceId = r, v_preview = [] \<rparr>"

definition example_source :: "string \<Rightarrow> int es_source" where
  "example_source r =
     \<lparr> src_id = Some (''e-'' @ r), src_documentType = Some ''MESSAGE'',
       src_embedding = Some [1, 2, 3], src_clusterId = None,
       src_referenceId = Some r, src_contentPreview = Absent \<rparr>"

text \<open>A search response with five well-formed hits.\<close>

definition example_es :: "int es_body http_result" where
  "example_es = Response 200 ''ok''
     (Some (Some (map (\<lambda>r. Some (example_source r)) [''m1'', ''m2'', ''m3'', ''m4'', ''m5''])))"

definition example_vectors :: "int vector list" where
  "example_vectors = map (\<lambda>r. example_vector r None) [''m1'', ''m2'', ''m3'', ''m4'', ''m5'']"

text \<open>A metadata response with no messages, and one whose only message has no sender.\<close>

definition example_api :: "api_message list http_result" where
  "example_api = Response 200 ''ok'' (Some [])"

definition example_api_malformed :: "api_message list http_result" where
  "example_api_malformed = Response 200 ''ok''
     (Some [\<lparr> msg_id = Some ''m1'', msg_messageType = Some ''MT103'', msg_senderId = None,
              msg_receiverId = Some ''BANKDEFF'', msg_status = Some ''NEW'',
              msg_templateId = None, msg_clusterId = None \<rparr>])"

definition example_args :: "string \<Rightarrow> args" where
  "example_args v =
     \<lparr> arg_method = ''pca'', arg_dimensions = ''2d'', arg_view = v,
       arg_output = ''cluster_visualization.html'' \<rparr>"

text \<open>
  A stand-in for the fitted estimators in the examples: it keeps the first
  \<open>n_components\<close> coordinates of every row.
\<close>

fun n_components :: "reducer \<Rightarrow> int" where
  "n_components (TSNE n random_state p n_iter) = n"
| "n_components (PCA n random_state) = n"

definition example_fit_transform :: "reducer \<Rightarrow> int list list \<Rightarrow> py_error + int list list" where
  "example_fit_transform r X = Inr (map (take (nat (n_components r))) X)"




text \<open>Two choices of the random identifiers written into the files.\<close>

definition example_div_id :: "nat \<Rightarrow> string" where
  "example_div_id i = replicate (Suc i) (CHR ''a'')"

definition other_div_id :: "nat \<Rightarrow> string" where
  "other_div_id i = replicate (Suc i) (CHR ''b'')"

definition example_mixed :: "int vector list" where
  "example_mixed =
     [example_vector ''m1'' None, example_vector ''m2'' (Some ''c1''),
      example_vector ''m3'' (Some ''c1'')]"

section \<open>Auxiliary facts\<close>

subsection \<open>Counting dictionaries\<close>

lemma sum_increment: "sum_list (map snd (increment k d)) = Suc (sum_list (map snd d))"
  by (induction d) auto

lemma count_loop_types:
  "sum_list (map snd (fst (count_loop vs mm (tc, cc, sc)))) = sum_list (map snd tc) + length vs"
  by (induction vs arbitrary: tc cc sc) (simp_all add: Let_def sum_increment)

lemma count_loop_clusters:
  "sum_list (map snd (fst (snd (count_loop vs mm (tc, cc, sc))))) =
     sum_list (map snd cc) + length (filter (\<lambda>v. v_clusterId v \<noteq> None) vs)"
  by (induction vs arbitrary: tc cc sc) (auto simp: Let_def sum_increment split: option.splits)

lemma doc_type_loop_sum:
  "sum_list (map snd (doc_type_loop vs d)) = sum_list (map snd d) + length vs"
  by (induction vs arbitrary: d) (simp_all add: sum_increment)

lemma count_loop_unknown_senders:
  "snd (snd (count_loop vs Map.empty (tc, cc, [(''UNKNOWN'', k)]))) = [(''UNKNOWN'', k + length vs)]"
  by (induction vs arbitrary: tc cc k) (simp_all add: Let_def get_field_def)

lemma sender_counts_unknown:
  "vs \<noteq> [] \<Longrightarrow> sender_counts_of vs Map.empty = [(''UNKNOWN'', length vs)]"
  by (cases vs) (simp_all add: sender_counts_of_def Let_def get_field_def count_loop_unknown_senders)

lemma top_senders_single: "top_senders [(s, n)] = [(s, n)]"
  by (simp add: top_senders_def)

subsection \<open>Cluster statistics\<close>






subsection \<open>The loops of the scatter and comparison views\<close>

lemma points_2d_eq:
  "points_2d vs mm (c, h, s, z) =
     (c @ map (\<lambda>v. get_field (mm (v_referenceId v)) messageType ''UNKNOWN'') vs,
      h @ map (\<lambda>v. hover_text_2d v (mm (v_referenceId v))
                     (get_field (mm (v_referenceId v)) messageType ''UNKNOWN'')) vs,
      s @ map (\<lambda>v. if v_type v = ''TEMPLATE'' then ''star'' else ''circle'') vs,
      z @ map (\<lambda>v. if v_type v = ''TEMPLATE'' then 20 else 10) vs)"
  by (induction vs arbitrary: c h s z) (simp_all add: Let_def)

lemma points_3d_eq:
  "points_3d vs mm (c, h, s, z) =
     (c @ map (\<lambda>v. get_field (mm (v_referenceId v)) messageType ''UNKNOWN'') vs,
      h @ map (\<lambda>v. hover_text_3d v (mm (v_referenceId v))
                     (get_field (mm (v_referenceId v)) messageType ''UNKNOWN'')) vs,
      s @ map (\<lambda>v. if v_type v = ''TEMPLATE'' then ''diamond'' else ''circle'') vs,
      z @ map (\<lambda>v. if v_type v = ''TEMPLATE'' then 15 else 8) vs)"
  by (induction vs arbitrary: c h s z) (simp_all add: Let_def)

lemma comparison_colors_eq:
  "comparison_colors hash vs mm cs =
     cs @ map (\<lambda>v. hash (get_field (mm (v_referenceId v)) messageType ''UNKNOWN'') mod 360) vs"
  by (induction vs arbitrary: cs) (simp_all add: Let_def)

subsection \<open>Fetching\<close>

lemma collect_vectors_length:
  "collect_vectors hits acc = Inr vs \<Longrightarrow> length vs = length acc + length hits"
  by (induction hits arbitrary: acc) (auto split: sum.splits)

lemma fetch_example: "fetch_vectors_from_elasticsearch example_es = Inr example_vectors"
  by (simp add: example_es_def example_source_def example_vector_def example_vectors_def
        vector_of_hit_def require_def)

lemma fetch_example_api: "fetch_messages_from_api example_api = Inr Map.empty"
  by (simp add: example_api_def)

lemma example_vectors_nonempty: "example_vectors \<noteq> []"
  by (simp add: example_vectors_def)

subsection \<open>The string hash and the random identifiers are all that a run adds to the data\<close>

lemma erase_2d:
  "map_sum id erase_colors (create_2d_visualization ft h1 vs mm m) =
   map_sum id erase_colors (create_2d_visualization ft h2 vs mm m)"
  by (simp add: create_2d_visualization_def Let_def erase_colors_def points_2d_eq split: sum.splits)

lemma erase_3d:
  "map_sum id erase_colors (create_3d_visualization ft h1 vs mm m) =
   map_sum id erase_colors (create_3d_visualization ft h2 vs mm m)"
  by (simp add: create_3d_visualization_def Let_def erase_colors_def points_3d_eq split: sum.splits)

lemma erase_comparison:
  "map_sum id erase_colors (create_cluster_comparison ft h1 vs mm) =
   map_sum id erase_colors (create_cluster_comparison ft h2 vs mm)"
  by (simp add: create_cluster_comparison_def Let_def erase_colors_def split: sum.splits)

lemma erase_scatter_step:
  "map_sum id (map erase_file) (scatter_step ft h1 d1 w1 a vs mm) =
   map_sum id (map erase_file) (scatter_step ft h2 d2 w2 a vs mm)"
proof -
  have "map_sum id (map erase_file) (scatter_step ft h d w a vs mm) =
     (if arg_view a = ''scatter'' \<or> arg_view a = ''all'' then
        case (if arg_dimensions a = ''2d''
              then map_sum id erase_colors (create_2d_visualization ft h vs mm (arg_method a))
              else map_sum id erase_colors (create_3d_visualization ft h vs mm (arg_method a))) of
          Inl e \<Rightarrow> Inl e
        | Inr fig \<Rightarrow>
            Inr [\<lparr> f_name = str_replace (arg_output a) ''.html''
                             (''_'' @ arg_method a @ ''_'' @ arg_dimensions a @ ''.html''),
                   f_div_id = [], f_figure = fig \<rparr>]
      else Inr [])" for h d w
    by (simp add: scatter_step_def erase_file_def split: sum.splits)
  then show ?thesis by (simp add: erase_2d [of ft h1 vs mm _ h2] erase_3d [of ft h1 vs mm _ h2])
qed

lemma erase_comparison_step:
  "map_sum id (map erase_file) (comparison_step ft h1 d1 w1 a vs mm) =
   map_sum id (map erase_file) (comparison_step ft h2 d2 w2 a vs mm)"
proof -
  have "map_sum id (map erase_file) (comparison_step ft h d w a vs mm) =
     (if arg_view a = ''comparison'' \<or> arg_view a = ''all'' then
        case map_sum id erase_colors (create_cluster_comparison ft h vs mm) of
          Inl e \<Rightarrow> Inl e
        | Inr fig \<Rightarrow>
            Inr [\<lparr> f_name = str_replace (arg_output a) ''.html'' ''_comparison.html'',
                   f_div_id = [], f_figure = fig \<rparr>]
      else Inr [])" for h d w
    by (simp add: comparison_step_def erase_file_def split: sum.splits)
  then show ?thesis by (simp add: erase_comparison [of ft h1 vs mm h2])
qed

lemma erase_stats_step:
  "map erase_file (stats_step d1 w1 a vs mm) = map erase_file (stats_step d2 w2 a vs mm)"
  by (simp add: stats_step_def erase_file_def)

lemma map_sum_id_cases:
  assumes "map_sum id f x = map_sum id f y"
  shows "(\<exists>e. x = Inl e \<and> y = Inl e) \<or> (\<exists>u v. x = Inr u \<and> y = Inr v \<and> f u = f v)"
  using assms by (cases x; cases y) simp_all

lemma erase_visualizations:
  "erase_run (create_visualizations ft h1 d1 a vs mm) =
   erase_run (create_visualizations ft h2 d2 a vs mm)"
proof -
  from map_sum_id_cases [OF erase_scatter_step [of ft h1 d1 0 a vs mm h2 d2 0]]
  show ?thesis
  proof (elim disjE exE conjE)
    fix e
    assume "scatter_step ft h1 d1 0 a vs mm = Inl e" "scatter_step ft h2 d2 0 a vs mm = Inl e"
    then show ?thesis by (simp add: create_visualizations_def erase_run_def)
  next
    fix u v
    assume s: "scatter_step ft h1 d1 0 a vs mm = Inr u" "scatter_step ft h2 d2 0 a vs mm = Inr v"
      and uv: "map erase_file u = map erase_file v"
    from map_sum_id_cases
      [OF erase_comparison_step [of ft h1 d1 "length u" a vs mm h2 d2 "length v"]]
    show ?thesis
    proof (elim disjE exE conjE)
      fix e
      assume "comparison_step ft h1 d1 (length u) a vs mm = Inl e"
        "comparison_step ft h2 d2 (length v) a vs mm = Inl e"
      with s uv show ?thesis by (simp add: create_visualizations_def erase_run_def)
    next
      fix p q
      assume "comparison_step ft h1 d1 (length u) a vs mm = Inr p"
        "comparison_step ft h2 d2 (length v) a vs mm = Inr q"
        and "map erase_file p = map erase_file q"
      with s uv
        erase_stats_step [of d1 "length u + length p" a vs mm d2 "length v + length q"]
      show ?thesis by (simp add: create_visualizations_def erase_run_def)
    qed
  qed
qed

lemma erase_main:
  "erase_run (main ft h1 d1 a es api) = erase_run (main ft h2 d2 a es api)"
  by (simp add: main_def erase_visualizations [of ft h1 d1 a _ _ h2 d2] split: sum.splits)

section \<open>The claims\<close>

text \<open>
  C1. Called without \<^verbatim>\<open>n_clusters\<close>, \<^verbatim>\<open>perform_clustering\<close> fits K-Means with
  \<open>k = clamp(n // 10, 2, 5)\<close> clusters, where \<open>n\<close> is the number of records; for every
  input of exactly 12 records the selected \<open>k\<close> is 2.
\<close>

theorem auto_cluster_count:
  "clustering_estimator embeddings None =
     KMeans (clamp (int (length embeddings) div 10) 2 5) 42 10
   \<and> perform_clustering fit_predict embeddings None =
       fit_predict (KMeans (clamp (int (length embeddings) div 10) 2 5) 42 10) embeddings
   \<and> (length embeddings = 12 \<longrightarrow> clustering_estimator embeddings None = KMeans 2 42 10)"
  by (auto simp: clustering_estimator_def perform_clustering_def clamp_def Let_def)

theorem auto_cluster_count_witness:
  "length (replicate 12 [0::int]) = 12
   \<and> clustering_estimator (replicate 12 [0::int]) None = KMeans 2 42 10"
  using auto_cluster_count [of "replicate 12 [0::int]"] by (simp add: clamp_def)




text \<open>
  C3, as stated, fails: a response with status 503 and a body that is not JSON makes
  \<^verbatim>\<open>fetch_vectors_from_elasticsearch\<close> return the empty list, which is also its result
  for a well-formed response with no hits.
\<close>

theorem fetch_vectors_status_counterexample:
  "\<not> isl (fetch_vectors_from_elasticsearch
            (Response 503 ''Service Unavailable'' None :: int es_body http_result))
   \<and> fetch_vectors_from_elasticsearch
        (Response 503 ''Service Unavailable'' None :: int es_body http_result) =
      fetch_vectors_from_elasticsearch (Response 200 ''ok'' (Some (Some [])))"
  by simp

text \<open>
  C3, amended. \<^verbatim>\<open>fetch_vectors_from_elasticsearch\<close> raises when the store cannot be
  reached, and when a response with status 200 is not JSON or has no hit list. For
  every other status it returns the empty list, whatever the body: the empty list is
  returned exactly for a status other than 200 and for a response with status 200 and
  no hits. An exception of the fetch ends the run with no file written; an empty list
  ends the run normally, also with no file written.
\<close>

theorem fetch_vectors_outcomes:
  "fetch_vectors_from_elasticsearch Unreachable = Inl ConnectionError
   \<and> fetch_vectors_from_elasticsearch (Response 200 t None) = Inl JSONDecodeError
   \<and> fetch_vectors_from_elasticsearch (Response 200 t (Some None)) = Inl (KeyError ''hits'')
   \<and> (status_code \<noteq> 200 \<longrightarrow>
        fetch_vectors_from_elasticsearch (Response status_code t body) = Inr [])
   \<and> (fetch_vectors_from_elasticsearch es = Inr [] \<longleftrightarrow>
        (\<exists>c t' b. es = Response c t' b \<and> (c \<noteq> 200 \<or> b = Some (Some []))))
   \<and> (fetch_vectors_from_elasticsearch es_failed = Inl e \<longrightarrow>
        main fit_transform hash div_id a es_failed api = \<lparr> files = [], raised = Some e \<rparr>)
   \<and> (fetch_vectors_from_elasticsearch es_empty = Inr [] \<longrightarrow>
        main fit_transform hash div_id a es_empty api = \<lparr> files = [], raised = None \<rparr>)"
proof -
  have iff: "fetch_vectors_from_elasticsearch es = Inr [] \<longleftrightarrow>
        (\<exists>c t' b. es = Response c t' b \<and> (c \<noteq> 200 \<or> b = Some (Some [])))"
  proof (cases es)
    case Unreachable
    then show ?thesis by simp
  next
    case (Response c t' b)
    show ?thesis
    proof (cases "c = 200")
      case False
      with Response show ?thesis by simp
    next
      case True
      with Response show ?thesis
        by (auto split: option.splits dest: collect_vectors_length)
    qed
  qed
  have failed: "fetch_vectors_from_elasticsearch es_failed = Inl e \<longrightarrow>
        main fit_transform hash div_id a es_failed api = \<lparr> files = [], raised = Some e \<rparr>"
    by (simp add: main_def)
  have empty: "fetch_vectors_from_elasticsearch es_empty = Inr [] \<longrightarrow>
        main fit_transform hash div_id a es_empty api = \<lparr> files = [], raised = None \<rparr>"
    by (simp add: main_def)
  from iff failed empty show ?thesis by simp
qed

theorem fetch_vectors_outcomes_witness:
  "(503::int) \<noteq> 200
   \<and> fetch_vectors_from_elasticsearch
        (Response 503 ''Service Unavailable'' None :: int es_body http_result) = Inr []
   \<and> fetch_vectors_from_elasticsearch (Unreachable :: int es_body http_result) =
        Inl ConnectionError
   \<and> main example_fit_transform (\<lambda>s. 0) example_div_id (example_args ''all'') Unreachable example_api =
       \<lparr> files = [], raised = Some ConnectionError \<rparr>
   \<and> main example_fit_transform (\<lambda>s. 0) example_div_id (example_args ''all'')
        (Response 503 ''Service Unavailable'' None) example_api =
       \<lparr> files = [], raised = None \<rparr>"
  using fetch_vectors_outcomes [of "''Service Unavailable''" 503 None
          "Response 503 ''Service Unavailable'' None" Unreachable ConnectionError
          example_fit_transform "\<lambda>s. 0" example_div_id "example_args ''all''" example_api
          "Response 503 ''Service Unavailable'' None"]
  by simp

text \<open>
  C4, as stated, fails: with five embeddings fetched, a metadata response whose message
  has no \<^verbatim>\<open>senderId\<close> ends the run with \<^verbatim>\<open>KeyError\<close>, and an unreachable metadata
  service ends it with the connection error; no statistics view is written.
\<close>

theorem metadata_failure_counterexample:
  "main example_fit_transform (\<lambda>s. 0) example_div_id (example_args ''stats'') example_es example_api_malformed =
     \<lparr> files = [], raised = Some (KeyError ''senderId'') \<rparr>
   \<and> main example_fit_transform (\<lambda>s. 0) example_div_id (example_args ''stats'') example_es Unreachable =
     \<lparr> files = [], raised = Some ConnectionError \<rparr>"
  by (simp add: main_def fetch_example example_vectors_nonempty example_api_malformed_def
        metadata_of_message_def require_def)

text \<open>
  C4, amended. When the metadata service answers with a status other than 200 and the
  embedding fetch returns at least one record, \<^verbatim>\<open>fetch_messages_from_api\<close> returns the
  empty mapping and the run goes on with it; the sender counts of the statistics view
  are the single entry \<open>UNKNOWN\<close> with the number of records, and a run that asks for
  the statistics view alone completes and writes exactly that view.
\<close>

theorem metadata_status_failure_recoverable:
  assumes "status_code \<noteq> 200"
    and "fetch_vectors_from_elasticsearch es = Inr vectors_data"
    and "vectors_data \<noteq> []"
  shows "fetch_messages_from_api (Response status_code t body) = Inr Map.empty
   \<and> main fit_transform hash div_id a es (Response status_code t body) =
       create_visualizations fit_transform hash div_id a vectors_data Map.empty
   \<and> sender_counts_of vectors_data Map.empty = [(''UNKNOWN'', length vectors_data)]
   \<and> traces (create_statistics_view vectors_data Map.empty) ! 2 =
       (Bar [''UNKNOWN''] [length vectors_data] ''Top Senders'', Some (2, 1))
   \<and> (arg_view a = ''stats'' \<longrightarrow>
        main fit_transform hash div_id a es (Response status_code t body) =
          \<lparr> files = [\<lparr> f_name = str_replace (arg_output a) ''.html'' ''_stats.html'',
                        f_div_id = div_id 0,
                        f_figure = create_statistics_view vectors_data Map.empty \<rparr>],
            raised = None \<rparr>)"
proof -
  have m: "fetch_messages_from_api (Response status_code t body) = Inr Map.empty"
    using assms(1) by simp
  have r: "main fit_transform hash div_id a es (Response status_code t body) =
       create_visualizations fit_transform hash div_id a vectors_data Map.empty"
    using assms by (simp add: main_def)
  have s: "sender_counts_of vectors_data Map.empty = [(''UNKNOWN'', length vectors_data)]"
    using assms(3) by (rule sender_counts_unknown)
  have b: "traces (create_statistics_view vectors_data Map.empty) ! 2 =
       (Bar [''UNKNOWN''] [length vectors_data] ''Top Senders'', Some (2, 1))"
    by (simp add: create_statistics_view_def Let_def s top_senders_single)
  have v: "arg_view a = ''stats'' \<longrightarrow>
        create_visualizations fit_transform hash div_id a vectors_data Map.empty =
          \<lparr> files = [\<lparr> f_name = str_replace (arg_output a) ''.html'' ''_stats.html'',
                        f_div_id = div_id 0,
                        f_figure = create_statistics_view vectors_data Map.empty \<rparr>],
            raised = None \<rparr>"
    by (simp add: create_visualizations_def scatter_step_def comparison_step_def stats_step_def)
  from m r s b v show ?thesis by simp
qed

theorem metadata_status_failure_recoverable_witness:
  "(500::int) \<noteq> 200
   \<and> fetch_vectors_from_elasticsearch example_es = Inr example_vectors
   \<and> example_vectors \<noteq> []
   \<and> arg_view (example_args ''stats'') = ''stats''
   \<and> sender_counts_of example_vectors Map.empty = [(''UNKNOWN'', 5)]
   \<and> raised (main example_fit_transform (\<lambda>s. 0) example_div_id (example_args ''stats'') example_es
        (Response 500 ''Internal Server Error'' None)) = None"
proof -
  have h1: "(500::int) \<noteq> 200" by simp
  have h4: "arg_view (example_args ''stats'') = ''stats''" by (simp add: example_args_def)
  note T = metadata_status_failure_recoverable [OF h1 fetch_example example_vectors_nonempty,
        of "''Internal Server Error''" None example_fit_transform "\<lambda>s. 0" example_div_id
          "example_args ''stats''"]
  note R = T [THEN conjunct2, THEN conjunct2, THEN conjunct2, THEN conjunct2, rule_format, OF h4]
  have run: "raised (main example_fit_transform (\<lambda>s. 0) example_div_id (example_args ''stats'') example_es
        (Response 500 ''Internal Server Error'' None)) = None"
    by (simp add: R)
  from T have s: "sender_counts_of example_vectors Map.empty = [(''UNKNOWN'', 5)]"
    by (simp add: example_vectors_def)
  from h1 fetch_example example_vectors_nonempty h4 run s show ?thesis by blast
qed




text \<open>
  C6. For every input of \<open>n\<close> records, the t-SNE reducer is built with perplexity
  \<open>min(30, n - 1)\<close>, in \<^verbatim>\<open>reduce_dimensions\<close> and in \<^verbatim>\<open>create_cluster_visualization\<close>: the
  perplexity handed to the estimator never exceeds \<open>n - 1\<close>.
\<close>

theorem perplexity_clamped:
  "reduce_dimensions fit_transform embeddings ''tsne'' n =
     fit_transform (TSNE n 42 (min 30 (int (length embeddings) - 1)) (Some 1000)) embeddings
   \<and> (choose_reducer embeddings method n = Inr r \<and> perplexity r = Some p
        \<longrightarrow> p \<le> int (length embeddings) - 1)
   \<and> (perplexity (cluster_visualization_reducer embeddings method) = Some q
        \<longrightarrow> q \<le> int (length embeddings) - 1)"
  by (auto simp: reduce_dimensions_def choose_reducer_def cluster_visualization_reducer_def
           split: if_splits)

theorem perplexity_clamped_witness:
  "choose_reducer [[0::int], [1], [2]] ''tsne'' 2 = Inr (TSNE 2 42 2 (Some 1000))
   \<and> perplexity (TSNE 2 42 2 (Some 1000)) = Some 2
   \<and> perplexity (cluster_visualization_reducer [[0::int], [1], [2]] ''tsne'') = Some 2
   \<and> (2::int) \<le> int (length [[0::int], [1], [2]]) - 1"
  using perplexity_clamped [of _ "[[0::int], [1], [2]]" 2 "''tsne''" "TSNE 2 42 2 (Some 1000)" 2 2]
  by (simp add: choose_reducer_def cluster_visualization_reducer_def)

text \<open>
  C8, as stated, fails. The marker colours are \<^verbatim>\<open>hash(c) % 360\<close> of the message type,
  and Python salts the hash of a string anew in every process: two runs on the same
  fetched data and the same reducer output, under two string hashes, write different
  scatter views. And \<^verbatim>\<open>write_html\<close> puts a fresh random identifier into every file:
  two runs that differ in nothing else write different statistics files.
\<close>

theorem views_hash_counterexample:
  "main example_fit_transform (\<lambda>s. 0) example_div_id (example_args ''scatter'')
     example_es example_api \<noteq>
   main example_fit_transform (\<lambda>s. 1) example_div_id (example_args ''scatter'')
     example_es example_api
   \<and> main example_fit_transform (\<lambda>s. 0) example_div_id (example_args ''stats'')
       example_es example_api \<noteq>
     main example_fit_transform (\<lambda>s. 0) other_div_id (example_args ''stats'')
       example_es example_api"
  by (simp add: main_def fetch_example fetch_example_api example_vectors_def
        create_visualizations_def
        scatter_step_def comparison_step_def stats_step_def example_args_def
        create_2d_visualization_def reduce_dimensions_def choose_reducer_def
        example_fit_transform_def column_def example_vector_def Let_def
        example_div_id_def other_div_id_def)

text \<open>
  C8, amended. Given the same fetched vectors and metadata, the same arguments and the
  same reducer output, two runs end in the same way and write the same files in the
  same order, with the same names and the same figures, apart from two values that
  belong to the process and not to the data: the hashed marker colours of the scatter
  and comparison views, and the random identifier written into each file.
\<close>

theorem views_differ_only_in_process_values:
  "erase_run (main fit_transform h1 d1 a es api) = erase_run (main fit_transform h2 d2 a es api)"
  by (rule erase_main)

text \<open>
  C10. In the statistics view, the counts by message type and the counts by document
  kind each sum to the number of records. The counts by cluster sum to the number of
  records whose \<^verbatim>\<open>clusterId\<close> is present: every record without one is left out, so that
  sum falls short of the number of records by the number of such records.
\<close>

theorem statistics_sums:
  "traces (create_statistics_view vectors_data messages_map) =
     [(Pie (map fst (type_counts_of vectors_data messages_map))
           (map snd (type_counts_of vectors_data messages_map)) ''Message Types'', Some (1, 1)),
      (Bar (map fst (cluster_counts_of vectors_data messages_map))
           (map snd (cluster_counts_of vectors_data messages_map)) ''Clusters'', Some (1, 2)),
      (Bar (map fst (top_senders (sender_counts_of vectors_data messages_map)))
           (map snd (top_senders (sender_counts_of vectors_data messages_map)))
           ''Top Senders'', Some (2, 1)),
      (Pie (map fst (doc_type_loop vectors_data []))
           (map snd (doc_type_loop vectors_data [])) ''Document Types'', Some (2, 2))]
   \<and> sum_list (map snd (type_counts_of vectors_data messages_map)) = length vectors_data
   \<and> sum_list (map snd (doc_type_loop vectors_data [])) = length vectors_data
   \<and> sum_list (map snd (cluster_counts_of vectors_data messages_map)) =
       length (filter (\<lambda>v. v_clusterId v \<noteq> None) vectors_data)
   \<and> sum_list (map snd (cluster_counts_of vectors_data messages_map)) +
       length (filter (\<lambda>v. v_clusterId v = None) vectors_data) = length vectors_data"
proof -
  have t: "sum_list (map snd (type_counts_of vectors_data messages_map)) = length vectors_data"
    by (simp add: type_counts_of_def count_loop_types)
  have d: "sum_list (map snd (doc_type_loop vectors_data [])) = length vectors_data"
    by (simp add: doc_type_loop_sum)
  have c: "sum_list (map snd (cluster_counts_of vectors_data messages_map)) =
       length (filter (\<lambda>v. v_clusterId v \<noteq> None) vectors_data)"
    by (simp add: cluster_counts_of_def count_loop_clusters)
  have p: "length (filter (\<lambda>v. v_clusterId v \<noteq> None) vectors_data) +
       length (filter (\<lambda>v. v_clusterId v = None) vectors_data) = length vectors_data"
    using sum_length_filter_compl [of "\<lambda>v. v_clusterId v \<noteq> None" vectors_data] by simp
  have f: "traces (create_statistics_view vectors_data messages_map) =
     [(Pie (map fst (type_counts_of vectors_data messages_map))
           (map snd (type_counts_of vectors_data messages_map)) ''Message Types'', Some (1, 1)),
      (Bar (map fst (cluster_counts_of vectors_data messages_map))
           (map snd (cluster_counts_of vectors_data messages_map)) ''Clusters'', Some (1, 2)),
      (Bar (map fst (top_senders (sender_counts_of vectors_data messages_map)))
           (map snd (top_senders (sender_counts_of vectors_data messages_map)))
           ''Top Senders'', Some (2, 1)),
      (Pie (map fst (doc_type_loop vectors_data []))
           (map snd (doc_type_loop vectors_data [])) ''Document Types'', Some (2, 2))]"
    by (simp add: create_statistics_view_def Let_def)
  from t d c p f show ?thesis by simp
qed

theorem statistics_sums_witness:
  "length example_mixed = 3
   \<and> length (filter (\<lambda>v. v_clusterId v = None) example_mixed) = 1
   \<and> sum_list (map snd (type_counts_of example_mixed Map.empty)) = 3
   \<and> sum_list (map snd (doc_type_loop example_mixed [])) = 3
   \<and> sum_list (map snd (cluster_counts_of example_mixed Map.empty)) = 2"
  using statistics_sums [of example_mixed Map.empty]
  by (simp add: example_mixed_def example_vector_def)

end
